theory Spec2Isabelle
  imports Main
begin

section \<open>Values of the scheduling library\<close>

text \<open>
  The library (\<^verbatim>\<open>common/libs/scheduling/index.ts\<close>) computes the cost of a scheduled
  call and builds the arguments of two contract calls. Amounts are \<^verbatim>\<open>BN\<close> objects of
  bn.js: signed integers of any size with exact \<^verbatim>\<open>add\<close> and \<^verbatim>\<open>mul\<close>, modelled as
  \<^typ>\<open>int\<close>. A parameter of type \<^verbatim>\<open>BN | null\<close> is an \<^typ>\<open>int option\<close>, \<open>None\<close>
  standing for \<^verbatim>\<open>null\<close> and \<^verbatim>\<open>undefined\<close>. A \<^verbatim>\<open>BN\<close> is an object, so it is truthy
  whatever its value: \<^verbatim>\<open>!x\<close> holds for \<open>None\<close> only.
\<close>

type_synonym BN = int

text \<open>
  A parameter of type \<^verbatim>\<open>any\<close> holds a JavaScript value. Numbers are the integer-valued
  ones (block numbers, timestamps) and \<^verbatim>\<open>NaN\<close>.
\<close>

datatype jsval =
    JSUndefined
  | JSNull
  | JSBool bool
  | JSNumber int
  | JSNaN
  | JSString string
  | JSBN BN

text \<open>JavaScript's conversion to a boolean, as \<^verbatim>\<open>!v\<close> and \<^verbatim>\<open>||\<close> apply it.\<close>

fun truthy :: "jsval \<Rightarrow> bool" where
  "truthy JSUndefined = False"
| "truthy JSNull = False"
| "truthy (JSBool b) = b"
| "truthy (JSNumber n) = (n \<noteq> 0)"
| "truthy JSNaN = False"
| "truthy (JSString s) = (s \<noteq> [])"
| "truthy (JSBN n) = True"

text \<open>\<^verbatim>\<open>a || b\<close> on an object or \<^verbatim>\<open>null\<close>.\<close>

fun orElse :: "'a option \<Rightarrow> 'a \<Rightarrow> 'a" where
  "orElse None d = d"
| "orElse (Some a) d = a"

text \<open>
  \<^verbatim>\<open>BN.bitLength()\<close>: the number of bits of the magnitude, zero for zero.
\<close>

fun bits :: "nat \<Rightarrow> nat" where
  "bits n = (if n = 0 then 0 else Suc (bits (n div 2)))"

declare bits.simps [simp del]

definition bitLength :: "BN \<Rightarrow> nat" where
  "bitLength n = bits (nat \<bar>n\<bar>)"

section \<open>Configuration\<close>

definition TIME_BOUNTY_MIN_const :: BN where
  "TIME_BOUNTY_MIN_const = 1"

text \<open>
  The fields of \<^verbatim>\<open>EAC_SCHEDULING_CONFIG\<close>, but for \<^verbatim>\<open>TIME_BOUNTY_MAX\<close>, which no
  function of the library reads.
\<close>

record scheduling_config =
  DAPP_ADDRESS :: string
  SCHEDULE_GAS_LIMIT_FALLBACK :: BN
  SCHEDULE_GAS_PRICE_FALLBACK :: int
  FEE :: BN
  FEE_MULTIPLIER :: BN
  FUTURE_EXECUTION_COST :: BN
  SCHEDULING_GAS_LIMIT :: BN
  WINDOW_SIZE_DEFAULT_TIME :: int
  WINDOW_SIZE_DEFAULT_BLOCK :: int
  TIME_BOUNTY_MIN :: BN
  TIME_BOUNTY_DEFAULT :: BN
  SCHEDULE_TIMESTAMP_FORMAT :: string
  DEFAULT_SCHEDULING_METHOD :: string

definition EAC_SCHEDULING_CONFIG :: scheduling_config where
  "EAC_SCHEDULING_CONFIG = \<lparr>
     DAPP_ADDRESS = ''https://app.chronologic.network'',
     SCHEDULE_GAS_LIMIT_FALLBACK = 21000,
     SCHEDULE_GAS_PRICE_FALLBACK = 20,
     FEE = 2242000000000000,
     FEE_MULTIPLIER = 2,
     FUTURE_EXECUTION_COST = 180000,
     SCHEDULING_GAS_LIMIT = 1500000,
     WINDOW_SIZE_DEFAULT_TIME = 10,
     WINDOW_SIZE_DEFAULT_BLOCK = 90,
     TIME_BOUNTY_MIN = TIME_BOUNTY_MIN_const,
     TIME_BOUNTY_DEFAULT = TIME_BOUNTY_MIN_const,
     SCHEDULE_TIMESTAMP_FORMAT = ''YYYY-MM-DD HH:mm:ss'',
     DEFAULT_SCHEDULING_METHOD = ''time'' \<rparr>"

section \<open>Cost formulas\<close>

definition calcEACFutureExecutionCost :: "BN \<Rightarrow> BN \<Rightarrow> BN option \<Rightarrow> BN" where
  "calcEACFutureExecutionCost callGas callGasPrice timeBounty =
     (let totalGas = callGas + FUTURE_EXECUTION_COST EAC_SCHEDULING_CONFIG;
          timeBounty' = (case timeBounty of
                           None \<Rightarrow> TIME_BOUNTY_MIN EAC_SCHEDULING_CONFIG
                         | Some t \<Rightarrow> t)
      in timeBounty'
           + FEE EAC_SCHEDULING_CONFIG * FEE_MULTIPLIER EAC_SCHEDULING_CONFIG
           + totalGas * callGasPrice)"

text \<open>
  \<^verbatim>\<open>gasPriceToBase\<close> is imported from \<^verbatim>\<open>../units\<close>; the endowment takes it as its
  first argument.
\<close>

definition calcEACEndowment ::
    "(int \<Rightarrow> BN) \<Rightarrow> BN option \<Rightarrow> BN option \<Rightarrow> BN option \<Rightarrow> BN \<Rightarrow> BN" where
  "calcEACEndowment gasPriceToBase callGas callValue callGasPrice timeBounty =
     (let callValue' = orElse callValue 0
      in callValue'
           + calcEACFutureExecutionCost
               (orElse callGas (SCHEDULE_GAS_LIMIT_FALLBACK EAC_SCHEDULING_CONFIG))
               (orElse callGasPrice
                  (gasPriceToBase (SCHEDULE_GAS_PRICE_FALLBACK EAC_SCHEDULING_CONFIG)))
               (Some timeBounty))"

definition calcEACTotalCost :: "BN \<Rightarrow> BN \<Rightarrow> BN \<Rightarrow> BN option \<Rightarrow> BN" where
  "calcEACTotalCost callGas gasPrice callGasPrice timeBounty =
     (let deployCost = gasPrice * SCHEDULING_GAS_LIMIT EAC_SCHEDULING_CONFIG;
          futureExecutionCost = calcEACFutureExecutionCost callGas callGasPrice timeBounty
      in deployCost + futureExecutionCost)"

section \<open>The schedule call\<close>

text \<open>
  \<^verbatim>\<open>callData\<close> is a string or a \<^verbatim>\<open>Buffer\<close>, and the empty string when the caller
  passes \<^verbatim>\<open>undefined\<close>. \<^verbatim>\<open>toBuffer\<close> (ethereumjs-util) and \<^verbatim>\<open>abi.simpleEncode\<close>
  (ethereumjs-abi) are libraries: \<open>getScheduleData\<close> takes them as its first two
  arguments. The encoder either raises an exception (\<open>Inl\<close>) or returns the payload
  (\<open>Inr\<close>), and the source calls it outside any \<^verbatim>\<open>try\<close>. The result of
  \<open>getScheduleData\<close> is therefore
  \<^item> \<open>None\<close> where the source returns nothing,
  \<^item> \<open>Some (Inl e)\<close> where the encoder raises \<open>e\<close>, which the caller then receives,
  \<^item> \<open>Some (Inr payload)\<close> where the encoder returns.

  The comparisons \<^verbatim>\<open>x.lt(new BN(0))\<close> stand to the right of the presence test of \<open>x\<close>
  in a chain of \<^verbatim>\<open>||\<close>, which stops at the first operand that holds: \<open>the x\<close> is read
  only where \<open>x\<close> is present.
\<close>

datatype 'buf call_data = CDUndefined | CDString string | CDBuffer 'buf

definition getScheduleData ::
    "(string \<Rightarrow> string \<Rightarrow> 'buf \<Rightarrow> jsval list \<Rightarrow> 'err + 'payload) \<Rightarrow> (string \<Rightarrow> 'buf) \<Rightarrow>
     string \<Rightarrow> 'buf call_data \<Rightarrow> BN option \<Rightarrow> BN option \<Rightarrow> BN option \<Rightarrow> jsval \<Rightarrow>
     BN option \<Rightarrow> BN option \<Rightarrow> BN option \<Rightarrow> ('err + 'payload) option" where
  "getScheduleData simpleEncode toBuffer toAddress callData callGas callValue windowSize
       windowStart callGasPrice timeBounty requiredDeposit =
     (let requiredDeposit' =
            (if requiredDeposit = None \<or> the requiredDeposit < 0 then 0
             else the requiredDeposit);
          callData' =
            (case callData of
               CDUndefined \<Rightarrow> toBuffer ''''
             | CDString s \<Rightarrow> toBuffer s
             | CDBuffer b \<Rightarrow> b)
      in if callValue = None
            \<or> callGas = None
            \<or> callGasPrice = None
            \<or> \<not> truthy windowStart
            \<or> windowSize = None
            \<or> timeBounty = None
            \<or> the timeBounty < 0
            \<or> the callGasPrice < 0
            \<or> the windowSize < 0
            \<or> bitLength (the windowSize) > 256
         then None
         else Some (simpleEncode ''schedule(address,bytes,uint[8]):(address)'' toAddress
                      callData'
                      [JSBN (the callGas),
                       JSBN (the callValue),
                       JSBN (the windowSize),
                       windowStart,
                       JSBN (the callGasPrice),
                       JSBN (FEE EAC_SCHEDULING_CONFIG),
                       JSBN (the timeBounty),
                       JSBN requiredDeposit']))"

section \<open>Decoding the validity flags\<close>

definition Errors :: "string list" where
  "Errors =
     [''InsufficientEndowment'',
      ''ReservedWindowBiggerThanExecutionWindow'',
      ''InvalidTemporalUnit'',
      ''ExecutionWindowTooSoon'',
      ''CallGasTooHigh'',
      ''EmptyToAddress'']"

text \<open>
  \<^verbatim>\<open>Errors[index]\<close>: past the end of the array JavaScript yields \<^verbatim>\<open>undefined\<close>,
  here \<open>None\<close>.
\<close>

definition Errors_at :: "nat \<Rightarrow> string option" where
  "Errors_at index = (if index < length Errors then Some (Errors ! index) else None)"

text \<open>
  \<^verbatim>\<open>isValid.forEach((boolIsTrue, index) => ...)\<close> from position \<open>index\<close> on, with the
  array \<open>errors\<close> built so far.
\<close>

fun forEach_isValid :: "bool list \<Rightarrow> nat \<Rightarrow> string option list \<Rightarrow> string option list" where
  "forEach_isValid [] index errors = errors"
| "forEach_isValid (boolIsTrue # rest) index errors =
     forEach_isValid rest (Suc index)
       (if \<not> boolIsTrue then errors @ [Errors_at index] else errors)"

definition parseSchedulingParametersValidity :: "bool list \<Rightarrow> string option list" where
  "parseSchedulingParametersValidity isValid = forEach_isValid isValid 0 []"

section \<open>The validation call\<close>

text \<open>
  The object given to \<^verbatim>\<open>RequestFactory.validateRequestParams.encodeInput\<close>. The encoder
  is the first argument of \<open>getValidateRequestParamsData\<close>; \<^verbatim>\<open>callData\<close> is \<open>None\<close>
  when the caller passes \<^verbatim>\<open>undefined\<close>.
\<close>

record validate_input =
  addressArgs :: "string list"
  uintArgs :: "jsval list"
  callData_arg :: string
  endowment_arg :: BN

definition getValidateRequestParamsData ::
    "(validate_input \<Rightarrow> 'payload) \<Rightarrow> string \<Rightarrow> string option \<Rightarrow> BN \<Rightarrow> jsval \<Rightarrow>
     BN option \<Rightarrow> int \<Rightarrow> BN \<Rightarrow> BN \<Rightarrow> BN \<Rightarrow> bool \<Rightarrow> BN \<Rightarrow> string \<Rightarrow> 'payload" where
  "getValidateRequestParamsData encodeInput toAddress callData callGas callValue windowSize
       windowStart gasPrice timeBounty requiredDeposit isTimestamp endowment fromAddress =
     (let callData' = orElse callData '''';
          windowSize' = orElse windowSize 0;
          temporalUnit = (if isTimestamp then 2 else 1);
          freezePeriod = (if isTimestamp then 3 * 60 else 10);
          reservedWindowSize = (if isTimestamp then 5 * 60 else 16);
          claimWindowSize = (if isTimestamp then 60 * 60 else 255);
          feeRecipient = ''0x0''
      in encodeInput \<lparr>
           addressArgs = [fromAddress, feeRecipient, toAddress],
           uintArgs =
             [JSBN (FEE EAC_SCHEDULING_CONFIG),
              JSBN timeBounty,
              JSNumber claimWindowSize,
              JSNumber freezePeriod,
              JSNumber reservedWindowSize,
              JSNumber temporalUnit,
              JSBN windowSize',
              JSNumber windowStart,
              JSBN callGas,
              callValue,
              JSBN gasPrice,
              JSBN requiredDeposit],
           callData_arg = callData',
           endowment_arg = endowment \<rparr>)"

section \<open>Auxiliary definitions for the statements\<close>

text \<open>
  The specification's condition for the schedule call to give no result, in its own
  words: one of the six values is absent (\<^verbatim>\<open>null\<close> or \<^verbatim>\<open>undefined\<close>), or
  \<open>timeBounty\<close>, \<open>callGasPrice\<close> or \<open>windowSize\<close> is negative, or \<open>windowSize\<close> does not
  fit within 256 bits.
\<close>

definition absent :: "jsval \<Rightarrow> bool" where
  "absent v \<longleftrightarrow> v = JSUndefined \<or> v = JSNull"

definition spec_no_result ::
    "BN option \<Rightarrow> BN option \<Rightarrow> BN option \<Rightarrow> jsval \<Rightarrow> BN option \<Rightarrow> BN option \<Rightarrow> bool" where
  "spec_no_result callGas callValue windowSize windowStart callGasPrice timeBounty \<longleftrightarrow>
     callValue = None \<or> callGas = None \<or> callGasPrice = None \<or> absent windowStart
     \<or> windowSize = None \<or> timeBounty = None
     \<or> (case timeBounty of None \<Rightarrow> False | Some t \<Rightarrow> t < 0)
     \<or> (case callGasPrice of None \<Rightarrow> False | Some p \<Rightarrow> p < 0)
     \<or> (case windowSize of None \<Rightarrow> False | Some w \<Rightarrow> w < 0 \<or> 2 ^ 256 \<le> w)"

text \<open>
  An encoder for evaluating calls. \<^verbatim>\<open>abi.simpleEncode\<close> is not part of the repository;
  \<open>checked_call\<close> keeps the checks that ethereumjs-abi makes on the elements of a
  \<^verbatim>\<open>uint[8]\<close> argument, in the library's order, and returns the arguments of the call in
  place of the bytes. An element that is a \<^verbatim>\<open>BN\<close> or a number is read as an integer
  (bn.js refuses a number of \<open>2 ^ 53\<close> or more); the library raises when the integer is
  wider than 256 bits, and when it is negative. A boolean is no number and raises. The
  library reads a string as a numeral; \<open>checked_call\<close> does not, and no call evaluated
  below passes one.
\<close>

datatype abi_error = NotANumber | UnsafeNumber | ExceedsWidth | NegativeUint

definition uint_checks :: "BN \<Rightarrow> abi_error + BN" where
  "uint_checks num =
     (if bitLength num > 256 then Inl ExceedsWidth
      else if num < 0 then Inl NegativeUint
      else Inr num)"

fun parseNumber :: "jsval \<Rightarrow> abi_error + BN" where
  "parseNumber (JSBN n) = Inr n"
| "parseNumber (JSNumber n) = (if \<bar>n\<bar> < 2 ^ 53 then Inr n else Inl UnsafeNumber)"
| "parseNumber v = Inl NotANumber"

fun encode_uints :: "jsval list \<Rightarrow> abi_error + BN list" where
  "encode_uints [] = Inr []"
| "encode_uints (v # vs) =
     (case parseNumber v of
        Inl e \<Rightarrow> Inl e
      | Inr n \<Rightarrow>
          (case uint_checks n of
             Inl e \<Rightarrow> Inl e
           | Inr m \<Rightarrow>
               (case encode_uints vs of
                  Inl e \<Rightarrow> Inl e
                | Inr ms \<Rightarrow> Inr (m # ms))))"

definition checked_call ::
    "string \<Rightarrow> string \<Rightarrow> string \<Rightarrow> jsval list
       \<Rightarrow> abi_error + (string \<times> string \<times> string \<times> BN list)" where
  "checked_call sig toAddress callData args =
     (case encode_uints args of
        Inl e \<Rightarrow> Inl e
      | Inr ns \<Rightarrow> Inr (sig, toAddress, callData, ns))"

text \<open>The conversion of Gwei to wei, for evaluating the endowment.\<close>

definition gwei_to_wei :: "int \<Rightarrow> BN" where
  "gwei_to_wei price = price * 10 ^ 9"

section \<open>Bit length\<close>

lemma bits_le_iff: "bits n \<le> k \<longleftrightarrow> n < 2 ^ k"
proof (induction k arbitrary: n)
  case 0
  show ?case by (subst bits.simps) simp
next
  case (Suc k)
  have "bits n \<le> Suc k \<longleftrightarrow> n = 0 \<or> bits (n div 2) \<le> k"
    by (subst bits.simps) simp
  also have "\<dots> \<longleftrightarrow> n = 0 \<or> n div 2 < 2 ^ k"
    by (simp only: Suc.IH)
  also have "\<dots> \<longleftrightarrow> n < 2 ^ Suc k"
    by auto
  finally show ?case .
qed

lemma bitLength_gt_iff: "bitLength w > k \<longleftrightarrow> 2 ^ k \<le> \<bar>w\<bar>"
proof -
  have "bitLength w > k \<longleftrightarrow> \<not> nat \<bar>w\<bar> < 2 ^ k"
    unfolding bitLength_def using bits_le_iff [of "nat \<bar>w\<bar>" k] by auto
  also have "\<dots> \<longleftrightarrow> 2 ^ k \<le> \<bar>w\<bar>"
    by (simp add: not_less le_nat_iff nat_le_iff flip: of_nat_power)
  finally show ?thesis .
qed

lemmas cfg = EAC_SCHEDULING_CONFIG_def TIME_BOUNTY_MIN_const_def

section \<open>Cost formulas: results\<close>

text \<open>
  Claim C3. \<open>calcEACFutureExecutionCost\<close> returns the effective time bounty plus
  \<open>FEE * FEE_MULTIPLIER\<close> plus \<open>(callGas + FUTURE_EXECUTION_COST) * callGasPrice\<close>, the
  effective time bounty being the given one or \<open>TIME_BOUNTY_MIN\<close> when it is absent. The
  function is total, and an absent time bounty gives the same cost as \<open>TIME_BOUNTY_MIN\<close>.
\<close>

theorem calcEACFutureExecutionCost_formula:
  "calcEACFutureExecutionCost callGas callGasPrice timeBounty =
     (case timeBounty of None \<Rightarrow> TIME_BOUNTY_MIN EAC_SCHEDULING_CONFIG | Some t \<Rightarrow> t)
       + FEE EAC_SCHEDULING_CONFIG * FEE_MULTIPLIER EAC_SCHEDULING_CONFIG
       + (callGas + FUTURE_EXECUTION_COST EAC_SCHEDULING_CONFIG) * callGasPrice
   \<and> calcEACFutureExecutionCost callGas callGasPrice None =
       calcEACFutureExecutionCost callGas callGasPrice
         (Some (TIME_BOUNTY_MIN EAC_SCHEDULING_CONFIG))"
  by (simp add: calcEACFutureExecutionCost_def Let_def)

theorem calcEACFutureExecutionCost_formula_witness:
  "calcEACFutureExecutionCost 21000 20000000000 None = 8504000000000001
   \<and> calcEACFutureExecutionCost 21000 20000000000 None =
       calcEACFutureExecutionCost 21000 20000000000 (Some 1)"
  using calcEACFutureExecutionCost_formula [of 21000 20000000000 None]
  by (simp add: cfg)

text \<open>
  Claim C4. In \<open>calcEACEndowment\<close> an absent \<open>callValue\<close> counts as zero, an absent
  \<open>callGas\<close> as \<open>SCHEDULE_GAS_LIMIT_FALLBACK\<close>, an absent \<open>callGasPrice\<close> as
  \<open>SCHEDULE_GAS_PRICE_FALLBACK\<close> converted to base units, and the result is the resolved
  call value plus the future execution cost of the resolved gas, the resolved gas price
  and the time bounty.
\<close>

theorem calcEACEndowment_defaults:
  "calcEACEndowment gasPriceToBase callGas callValue callGasPrice timeBounty =
     (case callValue of None \<Rightarrow> 0 | Some v \<Rightarrow> v)
       + calcEACFutureExecutionCost
           (case callGas of
              None \<Rightarrow> SCHEDULE_GAS_LIMIT_FALLBACK EAC_SCHEDULING_CONFIG
            | Some g \<Rightarrow> g)
           (case callGasPrice of
              None \<Rightarrow> gasPriceToBase (SCHEDULE_GAS_PRICE_FALLBACK EAC_SCHEDULING_CONFIG)
            | Some p \<Rightarrow> p)
           (Some timeBounty)"
  by (cases callValue; cases callGas; cases callGasPrice)
     (simp_all add: calcEACEndowment_def)

theorem calcEACEndowment_defaults_witness:
  "calcEACEndowment gwei_to_wei None None None 1
     = 0 + calcEACFutureExecutionCost 21000 20000000000 (Some 1)
   \<and> calcEACEndowment gwei_to_wei None (Some 7) None 1 = 8504000000000008"
  using calcEACEndowment_defaults [of gwei_to_wei None None None 1]
    calcEACEndowment_defaults [of gwei_to_wei None "Some 7" None 1]
  by (simp add: cfg gwei_to_wei_def calcEACFutureExecutionCost_def)

text \<open>
  Claim C5. \<open>calcEACTotalCost\<close> is the deployment gas price times
  \<open>SCHEDULING_GAS_LIMIT\<close> plus the future execution cost, in exact integer arithmetic.
\<close>

theorem calcEACTotalCost_formula:
  "calcEACTotalCost callGas deploymentGasPrice callGasPrice timeBounty =
     deploymentGasPrice * SCHEDULING_GAS_LIMIT EAC_SCHEDULING_CONFIG
       + calcEACFutureExecutionCost callGas callGasPrice timeBounty"
  by (simp add: calcEACTotalCost_def)

theorem calcEACTotalCost_formula_witness:
  "calcEACTotalCost 21000 20000000000 20000000000 (Some 1)
     = 20000000000 * 1500000 + calcEACFutureExecutionCost 21000 20000000000 (Some 1)
   \<and> calcEACTotalCost 21000 20000000000 20000000000 (Some 1) = 38504000000000001"
  using calcEACTotalCost_formula [of 21000 20000000000 20000000000 "Some 1"]
  by (simp add: cfg calcEACFutureExecutionCost_def)

text \<open>
  Claim C6. \<open>calcEACEndowment\<close> does not decrease when one of \<open>callValue\<close>, \<open>callGas\<close>,
  \<open>callGasPrice\<close> and \<open>timeBounty\<close> grows and the others stay as they are, all of them
  non-negative.
\<close>

theorem calcEACEndowment_mono:
  assumes "0 \<le> callGas" and "0 \<le> callValue" and "0 \<le> callGasPrice" and "0 \<le> timeBounty"
  shows "(callValue \<le> callValue' \<longrightarrow>
            calcEACEndowment g2b (Some callGas) (Some callValue) (Some callGasPrice) timeBounty
          \<le> calcEACEndowment g2b (Some callGas) (Some callValue') (Some callGasPrice) timeBounty)
       \<and> (callGas \<le> callGas' \<longrightarrow>
            calcEACEndowment g2b (Some callGas) (Some callValue) (Some callGasPrice) timeBounty
          \<le> calcEACEndowment g2b (Some callGas') (Some callValue) (Some callGasPrice) timeBounty)
       \<and> (callGasPrice \<le> callGasPrice' \<longrightarrow>
            calcEACEndowment g2b (Some callGas) (Some callValue) (Some callGasPrice) timeBounty
          \<le> calcEACEndowment g2b (Some callGas) (Some callValue) (Some callGasPrice') timeBounty)
       \<and> (timeBounty \<le> timeBounty' \<longrightarrow>
            calcEACEndowment g2b (Some callGas) (Some callValue) (Some callGasPrice) timeBounty
          \<le> calcEACEndowment g2b (Some callGas) (Some callValue) (Some callGasPrice) timeBounty')"
proof -
  have gas: "callGas \<le> callGas' \<Longrightarrow>
      (callGas + 180000) * callGasPrice \<le> (callGas' + 180000) * callGasPrice"
    using assms(3) by (intro mult_right_mono) simp_all
  have price: "callGasPrice \<le> callGasPrice' \<Longrightarrow>
      (callGas + 180000) * callGasPrice \<le> (callGas + 180000) * callGasPrice'"
    using assms(1) by (intro mult_left_mono) simp_all
  show ?thesis
    using gas price
    by (simp add: calcEACEndowment_def calcEACFutureExecutionCost_def cfg)
qed

theorem calcEACEndowment_mono_witness:
  "(0::int) \<le> 21000 \<and> (0::int) \<le> 5 \<and> (0::int) \<le> 20000000000 \<and> (0::int) \<le> 1
   \<and> calcEACEndowment gwei_to_wei (Some 21000) (Some 5) (Some 20000000000) 1
     \<le> calcEACEndowment gwei_to_wei (Some 21000) (Some 6) (Some 20000000000) 1
   \<and> calcEACEndowment gwei_to_wei (Some 21000) (Some 5) (Some 20000000000) 1
     \<le> calcEACEndowment gwei_to_wei (Some 21001) (Some 5) (Some 20000000000) 1
   \<and> calcEACEndowment gwei_to_wei (Some 21000) (Some 5) (Some 20000000000) 1
     \<le> calcEACEndowment gwei_to_wei (Some 21000) (Some 5) (Some 20000000001) 1
   \<and> calcEACEndowment gwei_to_wei (Some 21000) (Some 5) (Some 20000000000) 1
     \<le> calcEACEndowment gwei_to_wei (Some 21000) (Some 5) (Some 20000000000) 2"
  using calcEACEndowment_mono
          [of 21000 5 20000000000 1 6 gwei_to_wei 21001 20000000001 2]
  by simp

section \<open>The schedule call: results\<close>

lemmas checked_call_simps =
  checked_call_def uint_checks_def bitLength_gt_iff EAC_SCHEDULING_CONFIG_def

text \<open>
  Claim C1 as the specification states it fails in two ways. With \<open>windowStart\<close> the
  number 0, which is a present value, and every other argument valid, the call gives no
  result, although none of the specification's conditions holds. With \<open>callValue\<close> the
  integer \<open>-1\<close> none of the conditions holds either, the encoder is called, and it raises:
  no payload is produced and the call throws.
\<close>

theorem getScheduleData_spec_condition_counterexample:
  "getScheduleData checked_call id ''0xabc'' (CDString ''0x'') (Some 21000) (Some 0) (Some 10)
       (JSNumber 0) (Some 20000000000) (Some 1) None = None
   \<and> \<not> spec_no_result (Some 21000) (Some 0) (Some 10) (JSNumber 0) (Some 20000000000)
         (Some 1)
   \<and> getScheduleData checked_call id ''0xabc'' (CDString ''0x'') (Some 21000) (Some (- 1))
       (Some 10) (JSNumber 5) (Some 20000000000) (Some 1) None = Some (Inl NegativeUint)
   \<and> \<not> spec_no_result (Some 21000) (Some (- 1)) (Some 10) (JSNumber 5) (Some 20000000000)
         (Some 1)"
  by (simp add: getScheduleData_def spec_no_result_def absent_def checked_call_simps)

text \<open>
  Claim C1, amended. \<open>getScheduleData\<close> gives no result, without throwing, exactly when
  one of \<open>callValue\<close>, \<open>callGas\<close>, \<open>callGasPrice\<close>, \<open>windowSize\<close>, \<open>timeBounty\<close> is absent, or
  \<open>windowStart\<close> is falsy (absent, or the number 0, \<^verbatim>\<open>NaN\<close>, the empty string or
  \<^verbatim>\<open>false\<close>), or \<open>timeBounty\<close>, \<open>callGasPrice\<close> or \<open>windowSize\<close> is negative, or
  \<open>windowSize\<close> is \<open>2 ^ 256\<close> or more. In every other case it calls the encoder on the
  signature, the target address, the call data and the eight values, and its outcome is
  the encoder's: the payload the encoder returns, or the exception the encoder raises.
\<close>

theorem getScheduleData_outcome:
  "(getScheduleData simpleEncode toBuffer toAddress callData callGas callValue windowSize
        windowStart callGasPrice timeBounty requiredDeposit = None
    \<longleftrightarrow>
      callValue = None \<or> callGas = None \<or> callGasPrice = None \<or> \<not> truthy windowStart
      \<or> windowSize = None \<or> timeBounty = None
      \<or> (\<exists>t. timeBounty = Some t \<and> t < 0)
      \<or> (\<exists>p. callGasPrice = Some p \<and> p < 0)
      \<or> (\<exists>w. windowSize = Some w \<and> (w < 0 \<or> 2 ^ 256 \<le> w)))
   \<and> (callValue = Some cv \<and> callGas = Some cg \<and> callGasPrice = Some cgp
        \<and> truthy windowStart \<and> windowSize = Some ws \<and> timeBounty = Some tb
        \<and> 0 \<le> tb \<and> 0 \<le> cgp \<and> 0 \<le> ws \<and> ws < 2 ^ 256
      \<longrightarrow>
        getScheduleData simpleEncode toBuffer toAddress callData callGas callValue windowSize
          windowStart callGasPrice timeBounty requiredDeposit
        = Some (simpleEncode ''schedule(address,bytes,uint[8]):(address)'' toAddress
            (case callData of CDUndefined \<Rightarrow> toBuffer [] | CDString s \<Rightarrow> toBuffer s
             | CDBuffer b \<Rightarrow> b)
            [JSBN cg, JSBN cv, JSBN ws, windowStart, JSBN cgp,
             JSBN (FEE EAC_SCHEDULING_CONFIG), JSBN tb,
             JSBN (case requiredDeposit of None \<Rightarrow> 0
                   | Some d \<Rightarrow> if d < 0 then 0 else d)]))"
proof (intro conjI impI)
  show "getScheduleData simpleEncode toBuffer toAddress callData callGas callValue windowSize
          windowStart callGasPrice timeBounty requiredDeposit = None
        \<longleftrightarrow>
          callValue = None \<or> callGas = None \<or> callGasPrice = None \<or> \<not> truthy windowStart
          \<or> windowSize = None \<or> timeBounty = None
          \<or> (\<exists>t. timeBounty = Some t \<and> t < 0)
          \<or> (\<exists>p. callGasPrice = Some p \<and> p < 0)
          \<or> (\<exists>w. windowSize = Some w \<and> (w < 0 \<or> 2 ^ 256 \<le> w))"
    by (cases timeBounty; cases callGasPrice; cases windowSize)
       (auto simp add: getScheduleData_def Let_def bitLength_gt_iff)
next
  assume valid: "callValue = Some cv \<and> callGas = Some cg \<and> callGasPrice = Some cgp
        \<and> truthy windowStart \<and> windowSize = Some ws \<and> timeBounty = Some tb
        \<and> 0 \<le> tb \<and> 0 \<le> cgp \<and> 0 \<le> ws \<and> ws < 2 ^ 256"
  then show "getScheduleData simpleEncode toBuffer toAddress callData callGas callValue
          windowSize windowStart callGasPrice timeBounty requiredDeposit
        = Some (simpleEncode ''schedule(address,bytes,uint[8]):(address)'' toAddress
            (case callData of CDUndefined \<Rightarrow> toBuffer [] | CDString s \<Rightarrow> toBuffer s
             | CDBuffer b \<Rightarrow> b)
            [JSBN cg, JSBN cv, JSBN ws, windowStart, JSBN cgp,
             JSBN (FEE EAC_SCHEDULING_CONFIG), JSBN tb,
             JSBN (case requiredDeposit of None \<Rightarrow> 0
                   | Some d \<Rightarrow> if d < 0 then 0 else d)])"
    by (cases requiredDeposit)
       (simp_all add: getScheduleData_def Let_def bitLength_gt_iff not_less [symmetric])
qed

theorem getScheduleData_outcome_witness:
  "getScheduleData checked_call id ''0xabc'' (CDString ''0x'') (Some 21000) (Some 0) (Some 10)
       (JSNumber 0) (Some 20000000000) (Some 1) None = None
   \<and> getScheduleData checked_call id ''0xabc'' (CDString ''0x'') (Some 21000) (Some 0)
       (Some (2 ^ 256)) (JSNumber 5) (Some 20000000000) (Some 1) None = None
   \<and> getScheduleData checked_call id ''0xabc'' (CDString ''0x'') (Some 21000) (Some 0)
       (Some (2 ^ 256 - 1)) (JSNumber 5) (Some 20000000000) (Some 1) None
     = Some (Inr (''schedule(address,bytes,uint[8]):(address)'', ''0xabc'', ''0x'',
         [21000, 0, 2 ^ 256 - 1, 5, 20000000000, 2242000000000000, 1, 0]))
   \<and> getScheduleData checked_call id ''0xabc'' (CDString ''0x'') (Some (2 ^ 256)) (Some 0)
       (Some 10) (JSNumber 5) (Some 20000000000) (Some 1) None = Some (Inl ExceedsWidth)
   \<and> getScheduleData checked_call id ''0xabc'' (CDString ''0x'') (Some 21000) (Some 0)
       (Some 10) (JSBool True) (Some 20000000000) (Some 1) None = Some (Inl NotANumber)"
  using getScheduleData_outcome
          [where simpleEncode = checked_call and toBuffer = id and toAddress = "''0xabc''"
             and callData = "CDString ''0x''" and callGas = "Some 21000"
             and callValue = "Some 0" and windowSize = "Some 10"
             and windowStart = "JSNumber 0" and callGasPrice = "Some 20000000000"
             and timeBounty = "Some 1" and requiredDeposit = None]
        getScheduleData_outcome
          [where simpleEncode = checked_call and toBuffer = id and toAddress = "''0xabc''"
             and callData = "CDString ''0x''" and callGas = "Some 21000"
             and callValue = "Some 0" and windowSize = "Some (2 ^ 256)"
             and windowStart = "JSNumber 5" and callGasPrice = "Some 20000000000"
             and timeBounty = "Some 1" and requiredDeposit = None]
        getScheduleData_outcome
          [where simpleEncode = checked_call and toBuffer = id and toAddress = "''0xabc''"
             and callData = "CDString ''0x''" and callGas = "Some 21000"
             and callValue = "Some 0" and windowSize = "Some (2 ^ 256 - 1)"
             and windowStart = "JSNumber 5" and callGasPrice = "Some 20000000000"
             and timeBounty = "Some 1" and requiredDeposit = None
             and cv = 0 and cg = 21000 and cgp = 20000000000 and ws = "2 ^ 256 - 1"
             and tb = 1]
        getScheduleData_outcome
          [where simpleEncode = checked_call and toBuffer = id and toAddress = "''0xabc''"
             and callData = "CDString ''0x''" and callGas = "Some (2 ^ 256)"
             and callValue = "Some 0" and windowSize = "Some 10"
             and windowStart = "JSNumber 5" and callGasPrice = "Some 20000000000"
             and timeBounty = "Some 1" and requiredDeposit = None
             and cv = 0 and cg = "2 ^ 256" and cgp = 20000000000 and ws = 10 and tb = 1]
        getScheduleData_outcome
          [where simpleEncode = checked_call and toBuffer = id and toAddress = "''0xabc''"
             and callData = "CDString ''0x''" and callGas = "Some 21000"
             and callValue = "Some 0" and windowSize = "Some 10"
             and windowStart = "JSBool True" and callGasPrice = "Some 20000000000"
             and timeBounty = "Some 1" and requiredDeposit = None
             and cv = 0 and cg = 21000 and cgp = 20000000000 and ws = 10 and tb = 1]
  by (simp add: checked_call_simps)

text \<open>
  Claim C2. On a valid input the encoder receives, after the target address and the call
  data, the eight values \<open>callGas\<close>, \<open>callValue\<close>, \<open>windowSize\<close>, \<open>windowStart\<close>,
  \<open>callGasPrice\<close>, \<open>FEE\<close>, \<open>timeBounty\<close>, \<open>requiredDeposit\<close>, in this order.
\<close>

theorem getScheduleData_tuple_order:
  assumes "truthy windowStart" and "0 \<le> timeBounty" and "0 \<le> callGasPrice"
    and "0 \<le> windowSize" and "windowSize < 2 ^ 256"
  shows "getScheduleData simpleEncode toBuffer toAddress callData (Some callGas)
           (Some callValue) (Some windowSize) windowStart (Some callGasPrice)
           (Some timeBounty) requiredDeposit
         = Some (simpleEncode ''schedule(address,bytes,uint[8]):(address)'' toAddress
             (case callData of CDUndefined \<Rightarrow> toBuffer [] | CDString s \<Rightarrow> toBuffer s
              | CDBuffer b \<Rightarrow> b)
             [JSBN callGas, JSBN callValue, JSBN windowSize, windowStart, JSBN callGasPrice,
              JSBN (FEE EAC_SCHEDULING_CONFIG), JSBN timeBounty,
              JSBN (case requiredDeposit of None \<Rightarrow> 0
                    | Some d \<Rightarrow> if d < 0 then 0 else d)])"
  using assms
  by (cases requiredDeposit)
     (simp_all add: getScheduleData_def Let_def bitLength_gt_iff not_less [symmetric])

theorem getScheduleData_tuple_order_witness:
  "truthy (JSNumber 5) \<and> (0::int) \<le> 1 \<and> (0::int) \<le> 20000000000 \<and> (0::int) \<le> 10
   \<and> (10::int) < 2 ^ 256
   \<and> getScheduleData checked_call id ''0xabc'' (CDString ''0x'') (Some 21000) (Some 3)
       (Some 10) (JSNumber 5) (Some 20000000000) (Some 1) (Some 4)
     = Some (Inr (''schedule(address,bytes,uint[8]):(address)'', ''0xabc'', ''0x'',
         [21000, 3, 10, 5, 20000000000, 2242000000000000, 1, 4]))"
  using getScheduleData_tuple_order
          [where windowStart = "JSNumber 5" and timeBounty = 1
             and callGasPrice = 20000000000 and windowSize = 10
             and simpleEncode = checked_call and toBuffer = id and toAddress = "''0xabc''"
             and callData = "CDString ''0x''" and callGas = 21000 and callValue = 3
             and requiredDeposit = "Some 4"]
  by (simp add: checked_call_simps)

text \<open>
  Claim C7. \<open>requiredDeposit\<close> is clamped, not rejected. Whether the call gives a result
  does not depend on it; when it is absent or negative, the eighth value that reaches the
  encoder on a valid input is zero, and the result is the one for \<open>requiredDeposit = 0\<close>
  on every input, so \<open>-5\<close> and \<open>0\<close> give the same output; a deposit that is not negative
  reaches the encoder as it is.
\<close>

theorem getScheduleData_requiredDeposit_clamped:
  "(getScheduleData simpleEncode toBuffer toAddress callData callGas callValue windowSize
        windowStart callGasPrice timeBounty requiredDeposit = None
    \<longleftrightarrow>
      getScheduleData simpleEncode toBuffer toAddress callData callGas callValue windowSize
        windowStart callGasPrice timeBounty otherDeposit = None)
   \<and> (requiredDeposit = None \<or> (\<exists>d. requiredDeposit = Some d \<and> d < 0) \<longrightarrow>
        getScheduleData simpleEncode toBuffer toAddress callData callGas callValue windowSize
          windowStart callGasPrice timeBounty requiredDeposit
        = getScheduleData simpleEncode toBuffer toAddress callData callGas callValue
            windowSize windowStart callGasPrice timeBounty (Some 0))
   \<and> (truthy windowStart \<and> 0 \<le> tb \<and> 0 \<le> cgp \<and> 0 \<le> ws \<and> ws < 2 ^ 256
        \<and> (requiredDeposit = None \<or> (\<exists>d. requiredDeposit = Some d \<and> d < 0)) \<longrightarrow>
        getScheduleData simpleEncode toBuffer toAddress callData (Some cg) (Some cv) (Some ws)
          windowStart (Some cgp) (Some tb) requiredDeposit
        = Some (simpleEncode ''schedule(address,bytes,uint[8]):(address)'' toAddress
            (case callData of CDUndefined \<Rightarrow> toBuffer [] | CDString s \<Rightarrow> toBuffer s
             | CDBuffer b \<Rightarrow> b)
            [JSBN cg, JSBN cv, JSBN ws, windowStart, JSBN cgp,
             JSBN (FEE EAC_SCHEDULING_CONFIG), JSBN tb, JSBN 0]))
   \<and> (truthy windowStart \<and> 0 \<le> tb \<and> 0 \<le> cgp \<and> 0 \<le> ws \<and> ws < 2 ^ 256
        \<and> 0 \<le> deposit \<longrightarrow>
        getScheduleData simpleEncode toBuffer toAddress callData (Some cg) (Some cv) (Some ws)
          windowStart (Some cgp) (Some tb) (Some deposit)
        = Some (simpleEncode ''schedule(address,bytes,uint[8]):(address)'' toAddress
            (case callData of CDUndefined \<Rightarrow> toBuffer [] | CDString s \<Rightarrow> toBuffer s
             | CDBuffer b \<Rightarrow> b)
            [JSBN cg, JSBN cv, JSBN ws, windowStart, JSBN cgp,
             JSBN (FEE EAC_SCHEDULING_CONFIG), JSBN tb, JSBN deposit]))"
proof (intro conjI impI)
  show "getScheduleData simpleEncode toBuffer toAddress callData callGas callValue windowSize
          windowStart callGasPrice timeBounty requiredDeposit = None
        \<longleftrightarrow>
          getScheduleData simpleEncode toBuffer toAddress callData callGas callValue windowSize
            windowStart callGasPrice timeBounty otherDeposit = None"
    by (simp add: getScheduleData_def Let_def)
next
  assume "requiredDeposit = None \<or> (\<exists>d. requiredDeposit = Some d \<and> d < 0)"
  then show "getScheduleData simpleEncode toBuffer toAddress callData callGas callValue
          windowSize windowStart callGasPrice timeBounty requiredDeposit
        = getScheduleData simpleEncode toBuffer toAddress callData callGas callValue
            windowSize windowStart callGasPrice timeBounty (Some 0)"
    by (auto simp add: getScheduleData_def Let_def)
next
  assume "truthy windowStart \<and> 0 \<le> tb \<and> 0 \<le> cgp \<and> 0 \<le> ws \<and> ws < 2 ^ 256
        \<and> (requiredDeposit = None \<or> (\<exists>d. requiredDeposit = Some d \<and> d < 0))"
  then show "getScheduleData simpleEncode toBuffer toAddress callData (Some cg) (Some cv)
          (Some ws) windowStart (Some cgp) (Some tb) requiredDeposit
        = Some (simpleEncode ''schedule(address,bytes,uint[8]):(address)'' toAddress
            (case callData of CDUndefined \<Rightarrow> toBuffer [] | CDString s \<Rightarrow> toBuffer s
             | CDBuffer b \<Rightarrow> b)
            [JSBN cg, JSBN cv, JSBN ws, windowStart, JSBN cgp,
             JSBN (FEE EAC_SCHEDULING_CONFIG), JSBN tb, JSBN 0])"
    by (auto simp add: getScheduleData_def Let_def bitLength_gt_iff not_less [symmetric])
next
  assume "truthy windowStart \<and> 0 \<le> tb \<and> 0 \<le> cgp \<and> 0 \<le> ws \<and> ws < 2 ^ 256
        \<and> 0 \<le> deposit"
  then show "getScheduleData simpleEncode toBuffer toAddress callData (Some cg) (Some cv)
          (Some ws) windowStart (Some cgp) (Some tb) (Some deposit)
        = Some (simpleEncode ''schedule(address,bytes,uint[8]):(address)'' toAddress
            (case callData of CDUndefined \<Rightarrow> toBuffer [] | CDString s \<Rightarrow> toBuffer s
             | CDBuffer b \<Rightarrow> b)
            [JSBN cg, JSBN cv, JSBN ws, windowStart, JSBN cgp,
             JSBN (FEE EAC_SCHEDULING_CONFIG), JSBN tb, JSBN deposit])"
    by (simp add: getScheduleData_def Let_def bitLength_gt_iff not_less [symmetric])
qed

theorem getScheduleData_requiredDeposit_clamped_witness:
  "getScheduleData checked_call id ''0xabc'' (CDString ''0x'') (Some 21000) (Some 3)
       (Some 10) (JSNumber 5) (Some 20000000000) (Some 1) (Some (- 5))
     = Some (Inr (''schedule(address,bytes,uint[8]):(address)'', ''0xabc'', ''0x'',
         [21000, 3, 10, 5, 20000000000, 2242000000000000, 1, 0]))
   \<and> getScheduleData checked_call id ''0xabc'' (CDString ''0x'') (Some 21000) (Some 3)
       (Some 10) (JSNumber 5) (Some 20000000000) (Some 1) (Some (- 5))
     = getScheduleData checked_call id ''0xabc'' (CDString ''0x'') (Some 21000) (Some 3)
         (Some 10) (JSNumber 5) (Some 20000000000) (Some 1) (Some 0)
   \<and> getScheduleData checked_call id ''0xabc'' (CDString ''0x'') (Some 21000) (Some 3)
       (Some 10) (JSNumber 5) (Some 20000000000) (Some 1) (Some 7)
     = Some (Inr (''schedule(address,bytes,uint[8]):(address)'', ''0xabc'', ''0x'',
         [21000, 3, 10, 5, 20000000000, 2242000000000000, 1, 7]))"
  using getScheduleData_requiredDeposit_clamped
          [where simpleEncode = checked_call and toBuffer = id and toAddress = "''0xabc''"
             and callData = "CDString ''0x''" and callGas = "Some 21000"
             and callValue = "Some 3" and windowSize = "Some 10"
             and windowStart = "JSNumber 5" and callGasPrice = "Some 20000000000"
             and timeBounty = "Some 1" and requiredDeposit = "Some (- 5)"
             and otherDeposit = "Some 0"
             and cg = 21000 and cv = 3 and ws = 10 and cgp = 20000000000 and tb = 1
             and deposit = 7]
  by (auto simp add: checked_call_simps)

text \<open>
  Claim C10. With \<open>windowStart\<close> the number 0, \<open>getScheduleData\<close> gives no result, as it
  does for an absent \<open>windowStart\<close>, whatever the other arguments are.
\<close>

theorem getScheduleData_windowStart_zero:
  "getScheduleData simpleEncode toBuffer toAddress callData callGas callValue windowSize
       (JSNumber 0) callGasPrice timeBounty requiredDeposit = None
   \<and> getScheduleData simpleEncode toBuffer toAddress callData callGas callValue windowSize
       (JSNumber 0) callGasPrice timeBounty requiredDeposit
     = getScheduleData simpleEncode toBuffer toAddress callData callGas callValue windowSize
         JSUndefined callGasPrice timeBounty requiredDeposit"
  by (simp add: getScheduleData_def)

theorem getScheduleData_windowStart_zero_witness:
  "getScheduleData checked_call id ''0xabc'' (CDString ''0x'') (Some 21000) (Some 3)
       (Some 10) (JSNumber 0) (Some 20000000000) (Some 1) (Some 0) = None
   \<and> getScheduleData checked_call id ''0xabc'' (CDString ''0x'') (Some 21000) (Some 3)
       (Some 10) (JSNumber 1) (Some 20000000000) (Some 1) (Some 0) \<noteq> None"
  using getScheduleData_windowStart_zero
          [of checked_call id "''0xabc''" "CDString ''0x''" "Some 21000" "Some 3"
              "Some 10" "Some 20000000000" "Some 1" "Some 0"]
  by (simp add: getScheduleData_def bitLength_gt_iff)

section \<open>Decoding the validity flags: results\<close>

text \<open>
  The loop appends, for each flag that is false, the name at the flag's position; while
  the flags do not outnumber the names, the names appended are the sublist of the names
  at those positions.
\<close>

lemma forEach_isValid_nths:
  "index + length isValid \<le> length Errors \<Longrightarrow>
   forEach_isValid isValid index errors =
     errors @ map Some (nths (drop index Errors) {i. i < length isValid \<and> \<not> isValid ! i})"
proof (induction isValid arbitrary: index errors)
  case Nil
  show ?case by simp
next
  case (Cons b bs)
  from Cons.prems have lt: "index < length Errors" by simp
  have d: "drop index Errors = Errors ! index # drop (Suc index) Errors"
    using lt by (simp add: Cons_nth_drop_Suc)
  have s: "{j. Suc j \<in> {i. i < length (b # bs) \<and> \<not> (b # bs) ! i}}
             = {i. i < length bs \<and> \<not> bs ! i}"
    by auto
  have z: "0 \<in> {i. i < length (b # bs) \<and> \<not> (b # bs) ! i} \<longleftrightarrow> \<not> b"
    by simp
  from Cons.prems have "Suc index + length bs \<le> length Errors" by simp
  note IH = Cons.IH [OF this]
  show ?case
    unfolding d nths_Cons s z
    by (simp add: IH Errors_at_def lt)
qed

text \<open>
  Claim C8. For a list of six flags \<open>parseSchedulingParametersValidity\<close> returns the
  names of \<open>Errors\<close> at exactly the positions whose flag is false, in the order of the
  list; six true flags give the empty list, and false flags at the first and the last
  position give \<open>InsufficientEndowment\<close>, \<open>EmptyToAddress\<close>.
\<close>

theorem parseSchedulingParametersValidity_subsequence:
  "(length isValid = 6 \<longrightarrow>
      parseSchedulingParametersValidity isValid
        = map Some (nths Errors {i. i < 6 \<and> \<not> isValid ! i}))
   \<and> parseSchedulingParametersValidity [True, True, True, True, True, True] = []
   \<and> parseSchedulingParametersValidity [False, True, True, True, True, False]
       = [Some ''InsufficientEndowment'', Some ''EmptyToAddress'']"
proof (intro conjI impI)
  assume len: "length isValid = 6"
  have "length Errors = 6" by (simp add: Errors_def)
  with len have "0 + length isValid \<le> length Errors" by simp
  from forEach_isValid_nths [OF this, of "[]"] len
  show "parseSchedulingParametersValidity isValid
          = map Some (nths Errors {i. i < 6 \<and> \<not> isValid ! i})"
    by (simp add: parseSchedulingParametersValidity_def)
next
  show "parseSchedulingParametersValidity [True, True, True, True, True, True] = []"
    by (simp add: parseSchedulingParametersValidity_def)
next
  show "parseSchedulingParametersValidity [False, True, True, True, True, False]
          = [Some ''InsufficientEndowment'', Some ''EmptyToAddress'']"
    by (simp add: parseSchedulingParametersValidity_def Errors_at_def Errors_def)
qed

theorem parseSchedulingParametersValidity_subsequence_witness:
  "length [True, False, True, False, False, True] = 6
   \<and> parseSchedulingParametersValidity [True, False, True, False, False, True]
       = map Some (nths Errors {i. i < 6 \<and> \<not> [True, False, True, False, False, True] ! i})
   \<and> parseSchedulingParametersValidity [True, False, True, False, False, True]
       = [Some ''ReservedWindowBiggerThanExecutionWindow'', Some ''ExecutionWindowTooSoon'',
          Some ''CallGasTooHigh'']"
proof -
  have "parseSchedulingParametersValidity [True, False, True, False, False, True]
          = [Some ''ReservedWindowBiggerThanExecutionWindow'', Some ''ExecutionWindowTooSoon'',
             Some ''CallGasTooHigh'']"
    by (simp add: parseSchedulingParametersValidity_def Errors_at_def Errors_def)
  with parseSchedulingParametersValidity_subsequence
         [of "[True, False, True, False, False, True]"]
  show ?thesis by simp
qed

section \<open>The validation call: results\<close>

text \<open>
  Claim C9. \<open>getValidateRequestParamsData\<close> derives from \<open>isTimestamp\<close> the temporal unit
  (2, else 1), the freeze period (180, else 10), the reserved window size (300, else 16)
  and the claim window size (3600, else 255), and gives the encoder the twelve values
  \<open>FEE\<close>, \<open>timeBounty\<close>, \<open>claimWindowSize\<close>, \<open>freezePeriod\<close>, \<open>reservedWindowSize\<close>,
  \<open>temporalUnit\<close>, \<open>windowSize\<close>, \<open>windowStart\<close>, \<open>callGas\<close>, \<open>callValue\<close>, \<open>gasPrice\<close>,
  \<open>requiredDeposit\<close>, in this order.
\<close>

theorem getValidateRequestParamsData_policy:
  "getValidateRequestParamsData encodeInput toAddress callData callGas callValue windowSize
       windowStart gasPrice timeBounty requiredDeposit isTimestamp endowment fromAddress
   = encodeInput \<lparr>
       addressArgs = [fromAddress, ''0x0'', toAddress],
       uintArgs =
         [JSBN (FEE EAC_SCHEDULING_CONFIG),
          JSBN timeBounty,
          JSNumber (if isTimestamp then 3600 else 255),
          JSNumber (if isTimestamp then 180 else 10),
          JSNumber (if isTimestamp then 300 else 16),
          JSNumber (if isTimestamp then 2 else 1),
          JSBN (case windowSize of None \<Rightarrow> 0 | Some w \<Rightarrow> w),
          JSNumber windowStart,
          JSBN callGas,
          callValue,
          JSBN gasPrice,
          JSBN requiredDeposit],
       callData_arg = (case callData of None \<Rightarrow> [] | Some s \<Rightarrow> s),
       endowment_arg = endowment \<rparr>"
  by (cases windowSize; cases callData)
     (simp_all add: getValidateRequestParamsData_def)

theorem getValidateRequestParamsData_policy_witness:
  "uintArgs (getValidateRequestParamsData id ''0xabc'' None 21000 (JSBN 3) None 1700000000
       20000000000 1 4 True 8504000000000004 ''0xdef'')
     = [JSBN 2242000000000000, JSBN 1, JSNumber 3600, JSNumber 180, JSNumber 300, JSNumber 2,
        JSBN 0, JSNumber 1700000000, JSBN 21000, JSBN 3, JSBN 20000000000, JSBN 4]
   \<and> uintArgs (getValidateRequestParamsData id ''0xabc'' None 21000 (JSBN 3) (Some 90) 5000000
       20000000000 1 4 False 8504000000000004 ''0xdef'')
     = [JSBN 2242000000000000, JSBN 1, JSNumber 255, JSNumber 10, JSNumber 16, JSNumber 1,
        JSBN 90, JSNumber 5000000, JSBN 21000, JSBN 3, JSBN 20000000000, JSBN 4]"
  using getValidateRequestParamsData_policy
          [of id "''0xabc''" None 21000 "JSBN 3" None 1700000000 20000000000 1 4 True
              8504000000000004 "''0xdef''"]
        getValidateRequestParamsData_policy
          [of id "''0xabc''" None 21000 "JSBN 3" "Some 90" 5000000 20000000000 1 4 False
              8504000000000004 "''0xdef''"]
  by (simp add: cfg)

end
